theory Spec2Isabelle
  imports Complex_Main "HOL-Library.Log_Nat"
begin

section \<open>Risk-decision engine: EV engine, bankroll manager, regime detector, threshold tuner\<close>

text \<open>
  Python floats are modelled as reals. In the EV engine, the bet sizing, the balance
  update and the Pareto search the arithmetic is exact: what is proved there (bounds,
  invariants, orderings) does not turn on the last bit. In the daily-loss cap and in the
  regime detection a computed value is compared with a limit, and there every operation
  is rounded to double precision as the machine does. Infinities and NaN produced by
  arithmetic are outside the model. The one NaN the code produces by itself on ordinary
  data, the mean of an empty or all-missing pandas column, is modelled as \<open>None\<close>.
  Every raise of the source is a value \<open>Inl e\<close> of the result.
\<close>

datatype py_error = ZeroDivisionError | IndexError

text \<open>Python's \<open>a / b\<close> on floats raises for a zero divisor.\<close>

definition py_truediv :: "real \<Rightarrow> real \<Rightarrow> py_error + real" where
  "py_truediv a b = (if b = 0 then Inl ZeroDivisionError else Inr (a / b))"

subsection \<open>Double-precision arithmetic\<close>

text \<open>
  IEEE 754 binary64 with round to nearest, ties to even: a non-zero \<open>x\<close> with
  \<open>2^e \<le> |x| < 2^(e+1)\<close> is rounded to the nearest multiple of \<open>2^(e-52)\<close>. The
  exponent range is unbounded here, so overflow and subnormal numbers do not occur.
\<close>

definition pow2 :: "int \<Rightarrow> real" where
  "pow2 e = (if 0 \<le> e then 2 ^ nat e else 1 / 2 ^ nat (- e))"

definition round_half_even :: "real \<Rightarrow> int" where
  "round_half_even y =
     (let f = \<lfloor>y\<rfloor>; d = y - of_int f
      in if d < 1 / 2 then f else if 1 / 2 < d then f + 1 else if even f then f else f + 1)"

text \<open>The \<open>e\<close> with \<open>2^e \<le> |x| < 2^(e+1)\<close>, from the bit length of an integer.\<close>

definition binary_exponent :: "real \<Rightarrow> int" where
  "binary_exponent x =
     (let a = \<bar>x\<bar>
      in if 1 \<le> a then bitlen \<lfloor>a\<rfloor> - 1 else - bitlen (\<lceil>1 / a\<rceil> - 1))"

definition round_double :: "real \<Rightarrow> real" where
  "round_double x =
     (if x = 0 then 0
      else (let u = pow2 (binary_exponent x - 52)
            in of_int (round_half_even (x / u)) * u))"

text \<open>A decimal literal of the source, such as \<open>0.1\<close>, denotes the nearest double.\<close>

definition py_float :: "real \<Rightarrow> real" where
  "py_float x = round_double x"

definition fl_add :: "real \<Rightarrow> real \<Rightarrow> real" where
  "fl_add a b = round_double (a + b)"

definition fl_mul :: "real \<Rightarrow> real \<Rightarrow> real" where
  "fl_mul a b = round_double (a * b)"

definition fl_truediv :: "real \<Rightarrow> real \<Rightarrow> py_error + real" where
  "fl_truediv a b = (if b = 0 then Inl ZeroDivisionError else Inr (round_double (a / b)))"

subsection \<open>strategy/ev.py\<close>

record EVConfig =
  cash_slippage_pct :: real
  sidebet_payout :: real
  sidebet_fee_pct :: real
  cash_hold_dt_s :: real
  future_gain_multiplier_if_survive :: real
  safety_floor_x :: real
  min_probability :: real
  max_probability :: real
  default_stake_pct :: real
  max_stake_pct :: real
  ev_threshold :: real

text \<open>The dataclass defaults of \<open>EVConfig\<close>.\<close>

definition default_EVConfig :: EVConfig where
  "default_EVConfig =
     \<lparr>cash_slippage_pct = 2 / 1000, sidebet_payout = 5, sidebet_fee_pct = 2 / 100,
      cash_hold_dt_s = 2, future_gain_multiplier_if_survive = 115 / 100,
      safety_floor_x = 102 / 100, min_probability = 1 / 1000000,
      max_probability = 999999 / 1000000, default_stake_pct = 1 / 100,
      max_stake_pct = 5 / 100, ev_threshold = 1 / 1000\<rparr>"

text \<open>The configuration of \<open>setUp\<close> in tests/test\_ev.py.\<close>

definition test_config :: EVConfig where
  "test_config =
     default_EVConfig\<lparr>cash_slippage_pct := 1 / 1000, sidebet_payout := 4,
       sidebet_fee_pct := 1 / 100, cash_hold_dt_s := 1,
       future_gain_multiplier_if_survive := 11 / 10, safety_floor_x := 101 / 100\<rparr>"

datatype action_name = HOLD | TRIM | CASH | ARM_SIDEBET

text \<open>
  The rationale is an f-string; the model keeps which template was chosen and the number
  it formats.
\<close>

datatype rationale_text =
    Hold_expected_gain real
  | Hold_minimal_loss real
  | Cash_secure real
  | Sidebet_positive_ev real
  | No_clear_edge

record EVResult =
  action :: action_name
  evs :: "action_name \<rightharpoonup> real"
  rationale :: rationale_text
  confidence :: real

text \<open>\<open>np.clip(a, a_min, a_max)\<close> is \<open>minimum(maximum(a, a_min), a_max)\<close>.\<close>

definition np_clip :: "real \<Rightarrow> real \<Rightarrow> real \<Rightarrow> real" where
  "np_clip a a_min a_max = min (max a a_min) a_max"

text \<open>
  An \<open>EVEngine\<close> is its loaded configuration \<open>self\<close>. \<open>_clamp_probability\<close> reads
  \<open>self.config\<close>, also when a method was given another \<open>cfg\<close>.
\<close>

definition clamp_probability :: "EVConfig \<Rightarrow> real \<Rightarrow> real" where
  "clamp_probability self p = np_clip p (min_probability self) (max_probability self)"

definition cfg_or_self :: "EVConfig \<Rightarrow> EVConfig option \<Rightarrow> EVConfig" where
  "cfg_or_self self cfg = (case cfg of None \<Rightarrow> self | Some c \<Rightarrow> c)"

definition ev_cash_hold :: "EVConfig \<Rightarrow> real \<Rightarrow> real \<Rightarrow> EVConfig option \<Rightarrow> real" where
  "ev_cash_hold self p_rug_5s x cfg_arg =
     (let cfg = cfg_or_self self cfg_arg;
          p_rug = clamp_probability self p_rug_5s;
          p_survive = 1 - p_rug;
          future_x = x * future_gain_multiplier_if_survive cfg;
          crash_x = safety_floor_x cfg
      in p_survive * future_x + p_rug * crash_x)"

definition ev_cash_now :: "EVConfig \<Rightarrow> real \<Rightarrow> EVConfig option \<Rightarrow> real" where
  "ev_cash_now self x cfg_arg =
     (let cfg = cfg_or_self self cfg_arg
      in x * (1 - cash_slippage_pct cfg))"

definition ev_sidebet :: "EVConfig \<Rightarrow> real \<Rightarrow> real \<Rightarrow> EVConfig option \<Rightarrow> real" where
  "ev_sidebet self p_rug_10s stake cfg_arg =
     (let cfg = cfg_or_self self cfg_arg;
          p_rug = clamp_probability self p_rug_10s;
          win_amount = stake * (sidebet_payout cfg - 1) * (1 - sidebet_fee_pct cfg);
          loss_amount = - stake
      in p_rug * win_amount + (1 - p_rug) * loss_amount)"

type_synonym candidate = "action_name \<times> real \<times> string"

text \<open>
  \<open>actions.sort(key=lambda x: x[1], reverse=True)\<close>: Python's sort is stable, also with
  \<open>reverse=True\<close>, so candidates of equal EV keep their insertion order. \<open>sort_key\<close> is
  a stable insertion sort; sorting on the negated key sorts descending.
\<close>

definition sort_by_ev_desc :: "candidate list \<Rightarrow> candidate list" where
  "sort_by_ev_desc actions = sort_key (\<lambda>a. - fst (snd a)) actions"

text \<open>The sidebet EV that \<open>best_action\<close> computes (its local \<open>ev_sidebet\<close>).\<close>

definition computed_sidebet_ev :: "EVConfig \<Rightarrow> real \<Rightarrow> real \<Rightarrow> EVConfig option \<Rightarrow> real" where
  "computed_sidebet_ev self p10 bankroll cfg_arg =
     (let cfg = cfg_or_self self cfg_arg
      in ev_sidebet self (clamp_probability self p10) (bankroll * default_stake_pct cfg) (Some cfg))"

text \<open>The list \<open>actions\<close> of \<open>best_action\<close> before and after it is sorted.\<close>

definition candidate_actions ::
  "EVConfig \<Rightarrow> real \<Rightarrow> real \<Rightarrow> real \<Rightarrow> real \<Rightarrow> EVConfig option \<Rightarrow> candidate list" where
  "candidate_actions self p5 p10 x bankroll cfg_arg =
     (let cfg = cfg_or_self self cfg_arg;
          p5c = clamp_probability self p5;
          ev_hold = ev_cash_hold self p5c x (Some cfg);
          ev_cash = ev_cash_now self x (Some cfg);
          ev_sidebet_vs_cash = computed_sidebet_ev self p10 bankroll cfg_arg;
          ev_hold_vs_cash = ev_hold - ev_cash
      in [(HOLD, ev_hold_vs_cash, ''Hold for potential gains''), (CASH, 0, ''Cash out now'')]
         @ (if ev_sidebet_vs_cash > ev_threshold cfg
            then [(ARM_SIDEBET, ev_sidebet_vs_cash, ''Place sidebet for positive EV'')]
            else []))"

definition ranked_actions ::
  "EVConfig \<Rightarrow> real \<Rightarrow> real \<Rightarrow> real \<Rightarrow> real \<Rightarrow> EVConfig option \<Rightarrow> candidate list" where
  "ranked_actions self p5 p10 x bankroll cfg_arg =
     sort_by_ev_desc (candidate_actions self p5 p10 x bankroll cfg_arg)"

definition best_action ::
  "EVConfig \<Rightarrow> real \<Rightarrow> real \<Rightarrow> real \<Rightarrow> real \<Rightarrow> EVConfig option \<Rightarrow> py_error + EVResult" where
  "best_action self p5 p10 x bankroll cfg_arg =
     (let cfg = cfg_or_self self cfg_arg;
          p5c = clamp_probability self p5;
          ev_hold = ev_cash_hold self p5c x (Some cfg);
          ev_cash = ev_cash_now self x (Some cfg);
          ev_sidebet_vs_cash = computed_sidebet_ev self p10 bankroll cfg_arg;
          ev_hold_vs_cash = ev_hold - ev_cash;
          evs0 = [HOLD \<mapsto> ev_hold_vs_cash, CASH \<mapsto> 0];
          evs1 = (if ev_sidebet_vs_cash > ev_threshold cfg
                  then evs0(ARM_SIDEBET \<mapsto> ev_sidebet_vs_cash) else evs0)
      in case ranked_actions self p5 p10 x bankroll cfg_arg of
           [] \<Rightarrow> Inl IndexError
         | (best_action_name, best_ev, _) # rest \<Rightarrow>
             (let second_best_ev = (case rest of [] \<Rightarrow> 0 | (_, ev2, _) # _ \<Rightarrow> ev2);
                  ev_delta = best_ev - second_best_ev;
                  conf = min (95 / 100) (max (5 / 100) (1 / 2 + ev_delta * 10));
                  rat = (if best_action_name = HOLD
                         then (if ev_hold_vs_cash > 0 then Hold_expected_gain ev_hold_vs_cash
                               else Hold_minimal_loss ev_hold_vs_cash)
                         else if best_action_name = CASH then Cash_secure ev_cash
                         else if best_action_name = ARM_SIDEBET
                         then Sidebet_positive_ev ev_sidebet_vs_cash
                         else No_clear_edge)
              in Inr \<lparr>action = best_action_name, evs = evs1, rationale = rat,
                      confidence = conf\<rparr>))"

subsection \<open>strategy/bankroll.py\<close>

text \<open>
  The state dictionary, one field per key. The key \<open>'initial_balance'\<close> is the field
  \<open>state_initial_balance\<close>, since the manager has an attribute of that name too. Dates
  and timestamps are the ISO strings the code stores.
\<close>

record BankrollState =
  balance :: real
  state_initial_balance :: real
  daily_loss :: real
  last_date :: string
  total_bets :: int
  wins :: int
  losses :: int
  total_profit :: real
  max_balance :: real
  min_balance :: real
  created_at :: string
  last_updated :: string

record BankrollManager =
  initial_balance :: real
  kelly_fraction :: real
  max_daily_loss_pct :: real
  bet_size_cap :: real
  bankroll_file :: string
  state :: BankrollState

text \<open>What a call reads from its surroundings: the clock and the state file.\<close>

record environment =
  today :: string
  now :: string
  persisted :: "BankrollState option"
  can_write :: bool

text \<open>The state \<open>_load_state\<close> creates when there is no readable state file.\<close>

definition new_state :: "real \<Rightarrow> environment \<Rightarrow> BankrollState" where
  "new_state init env =
     \<lparr>balance = init, state_initial_balance = init, daily_loss = 0, last_date = today env,
      total_bets = 0, wins = 0, losses = 0, total_profit = 0, max_balance = init,
      min_balance = init, created_at = now env, last_updated = now env\<rparr>"

definition load_state :: "real \<Rightarrow> environment \<Rightarrow> BankrollState" where
  "load_state init env =
     (case persisted env of
        Some st \<Rightarrow>
          (if last_date st \<noteq> today env then st\<lparr>daily_loss := 0, last_date := today env\<rparr>
           else st)
      | None \<Rightarrow> new_state init env)"

text \<open>\<open>__init__\<close>: the cap is given in percent and stored as a fraction.\<close>

definition BankrollManager_init ::
  "real \<Rightarrow> real \<Rightarrow> real \<Rightarrow> real \<Rightarrow> string \<Rightarrow> environment \<Rightarrow> BankrollManager" where
  "BankrollManager_init initial_balance_arg kelly_fraction_arg max_daily_loss_pct_arg
       bet_size_cap_arg bankroll_file_arg env =
     \<lparr>initial_balance = initial_balance_arg, kelly_fraction = kelly_fraction_arg,
      max_daily_loss_pct = max_daily_loss_pct_arg, bet_size_cap = bet_size_cap_arg / 100,
      bankroll_file = bankroll_file_arg, state = load_state initial_balance_arg env\<rparr>"

text \<open>\<open>create_bankroll_manager\<close> with the default file name, and with all its defaults.\<close>

definition create_bankroll_manager ::
  "real \<Rightarrow> real \<Rightarrow> real \<Rightarrow> real \<Rightarrow> environment \<Rightarrow> BankrollManager" where
  "create_bankroll_manager initial_balance_arg kelly_fraction_arg max_daily_loss_pct_arg
       bet_size_cap_arg env =
     BankrollManager_init initial_balance_arg kelly_fraction_arg max_daily_loss_pct_arg
       bet_size_cap_arg ''../data/bankroll.json'' env"

definition default_bankroll_manager :: "environment \<Rightarrow> BankrollManager" where
  "default_bankroll_manager env = create_bankroll_manager 1000 (1 / 2) 20 5 env"

text \<open>An environment with no state file, so that the manager starts fresh.\<close>

definition fresh_env :: environment where
  "fresh_env = \<lparr>today = ''2024-01-01'', now = ''2024-01-01T00:00:00'', persisted = None,
                 can_write = True\<rparr>"

text \<open>
  \<open>_save_state\<close>: the timestamp is set inside the \<open>try\<close>, after the directory is made;
  when that fails the exception is swallowed and the state in memory stays as it was.
\<close>

definition save_state :: "BankrollManager \<Rightarrow> environment \<Rightarrow> BankrollManager" where
  "save_state self env =
     (if can_write env then self\<lparr>state := (state self)\<lparr>last_updated := now env\<rparr>\<rparr> else self)"

definition size_bet :: "BankrollManager \<Rightarrow> real \<Rightarrow> real \<Rightarrow> py_error + real" where
  "size_bet self edge odds =
     (if edge \<le> 0 \<or> edge \<ge> 1 \<or> odds \<le> 1 then Inr 0
      else
        (let b = odds - 1; p = edge; q = 1 - edge
         in case py_truediv (b * p - q) b of
              Inl e \<Rightarrow> Inl e
            | Inr kelly_fraction_raw \<Rightarrow>
                (let kelly_fraction_actual = kelly_fraction_raw * kelly_fraction self;
                     bet_size = min kelly_fraction_actual (bet_size_cap self)
                 in Inr (max 0 bet_size))))"

definition calculate_bet_amount :: "BankrollManager \<Rightarrow> real \<Rightarrow> real \<Rightarrow> py_error + real" where
  "calculate_bet_amount self edge odds =
     (case size_bet self edge odds of
        Inl e \<Rightarrow> Inl e
      | Inr bet_size_pct \<Rightarrow> Inr (balance (state self) * bet_size_pct))"

record transition =
  old_balance :: real
  new_balance :: real
  profit :: real
  roi :: real
  total_roi :: real
  win_rate :: real

text \<open>
  \<open>update_balance\<close> changes and saves the state first and builds the returned
  dictionary afterwards, so the manager is returned updated also when the dictionary
  raises (the cumulative ROI divides by \<open>self.initial_balance\<close>).
\<close>

definition update_state :: "BankrollState \<Rightarrow> real \<Rightarrow> BankrollState" where
  "update_state st result =
     (let new_bal = balance st + result;
          st1 = st\<lparr>balance := new_bal, total_bets := total_bets st + 1,
                   total_profit := total_profit st + result\<rparr>;
          st2 = (if result > 0 then st1\<lparr>wins := wins st1 + 1\<rparr>
                 else st1\<lparr>losses := losses st1 + 1, daily_loss := daily_loss st1 + \<bar>result\<bar>\<rparr>)
      in st2\<lparr>max_balance := max (max_balance st2) new_bal,
              min_balance := min (min_balance st2) new_bal\<rparr>)"

definition update_balance ::
  "BankrollManager \<Rightarrow> real \<Rightarrow> real \<Rightarrow> environment \<Rightarrow> BankrollManager \<times> (py_error + transition)" where
  "update_balance self bet_amount result env =
     (let old_bal = balance (state self);
          new_bal = old_bal + result;
          self1 = save_state (self\<lparr>state := update_state (state self) result\<rparr>) env;
          st = state self1;
          roi_v = (if old_bal > 0 then (result / old_bal) * 100 else 0)
      in (self1,
          case py_truediv (new_bal - initial_balance self) (initial_balance self) of
            Inl e \<Rightarrow> Inl e
          | Inr r \<Rightarrow>
              Inr \<lparr>old_balance = old_bal, new_balance = new_bal, profit = result, roi = roi_v,
                   total_roi = r * 100,
                   win_rate = (if total_bets st > 0
                               then (real_of_int (wins st) / real_of_int (total_bets st)) * 100
                               else 0)\<rparr>))"

text \<open>A finite sequence of calls, each with its arguments and its environment.\<close>

fun run_updates :: "BankrollManager \<Rightarrow> (real \<times> real \<times> environment) list \<Rightarrow> BankrollManager" where
  "run_updates self [] = self"
| "run_updates self ((bet_amount, result, env) # calls) =
     run_updates (fst (update_balance self bet_amount result env)) calls"

text \<open>
  \<open>apply_daily_loss_cap\<close> compares the computed percentage with the limit, so its
  division and its multiplication are the rounded ones.
\<close>

definition apply_daily_loss_cap :: "BankrollManager \<Rightarrow> py_error + bool" where
  "apply_daily_loss_cap self =
     (if balance (state self) \<le> 0 then Inr False
      else case fl_truediv (daily_loss (state self)) (balance (state self)) of
             Inl e \<Rightarrow> Inl e
           | Inr ratio \<Rightarrow>
               (let daily_loss_pct = fl_mul ratio 100
                in Inr (daily_loss_pct < max_daily_loss_pct self)))"

subsection \<open>regime.py\<close>

record RegimeConfig =
  lookback_rounds :: int
  vol_low_threshold :: real
  vol_high_threshold :: real
  slope_low_threshold :: real
  slope_high_threshold :: real
  min_rounds_per_regime :: int

definition default_RegimeConfig :: RegimeConfig where
  "default_RegimeConfig =
     \<lparr>lookback_rounds = 200, vol_low_threshold = py_float (1 / 10),
      vol_high_threshold = py_float (3 / 10), slope_low_threshold = py_float (5 / 100),
      slope_high_threshold = py_float (15 / 100), min_rounds_per_regime = 50\<rparr>"

datatype regime = low_vol | normal | high_vol

text \<open>
  A row of the data frame, with the two columns \<open>detect_regime\<close> reads. A missing value
  (NaN) is \<open>None\<close>.
\<close>

record round_row =
  volatility :: "real option"
  slope_magnitude :: "real option"

text \<open>
  \<open>Series.mean()\<close> is computed by pandas as the numpy sum of the column, with every
  missing value replaced by 0, divided by the number of values present; it is NaN
  (\<open>None\<close>) when none is present. numpy adds a float column pairwise: fewer than 8
  numbers one after the other; up to 128 numbers in eight interleaved accumulators that
  are then added in pairs, followed by the numbers left over; more than 128 numbers by
  halves, the first half cut to a multiple of 8.
\<close>

fun seq_add :: "real \<Rightarrow> real list \<Rightarrow> real" where
  "seq_add res [] = res"
| "seq_add res (a # as) = seq_add (fl_add res a) as"

fun add_blocks :: "real list \<Rightarrow> real list \<Rightarrow> real list \<times> real list" where
  "add_blocks r xs =
     (if length xs < 8 then (r, xs)
      else add_blocks (map2 fl_add r (take 8 xs)) (drop 8 xs))"

fun combine8 :: "real list \<Rightarrow> real" where
  "combine8 [r0, r1, r2, r3, r4, r5, r6, r7] =
     fl_add (fl_add (fl_add r0 r1) (fl_add r2 r3)) (fl_add (fl_add r4 r5) (fl_add r6 r7))"
| "combine8 _ = 0"

fun pairwise_sum :: "real list \<Rightarrow> real" where
  "pairwise_sum a =
     (let n = length a
      in if n < 8 then seq_add 0 a
         else if n \<le> 128
         then (case add_blocks (take 8 a) (drop 8 a) of
                 (r, rest) \<Rightarrow> seq_add (combine8 r) rest)
         else (let n2 = n div 2 - (n div 2) mod 8
               in fl_add (pairwise_sum (take n2 a)) (pairwise_sum (drop n2 a))))"

definition series_mean :: "real option list \<Rightarrow> real option" where
  "series_mean col =
     (let values = map (\<lambda>v. case v of None \<Rightarrow> 0 | Some y \<Rightarrow> y) col;
          count = length (filter (\<lambda>v. v \<noteq> None) col)
      in if count > 0 then Some (round_double (pairwise_sum values / real count)) else None)"

text \<open>A comparison with NaN is false.\<close>

definition nan_less :: "real option \<Rightarrow> real \<Rightarrow> bool" where
  "nan_less a t = (case a of None \<Rightarrow> False | Some v \<Rightarrow> v < t)"

definition nan_greater :: "real option \<Rightarrow> real \<Rightarrow> bool" where
  "nan_greater a t = (case a of None \<Rightarrow> False | Some v \<Rightarrow> v > t)"

definition detect_regime :: "RegimeConfig \<Rightarrow> round_row list \<Rightarrow> regime" where
  "detect_regime config data =
     (if int (length data) < min_rounds_per_regime config then normal
      else
        (let avg_vol = series_mean (map volatility data);
             avg_slope = series_mean (map slope_magnitude data)
         in if nan_less avg_vol (vol_low_threshold config)
               \<and> nan_less avg_slope (slope_low_threshold config) then low_vol
            else if nan_greater avg_vol (vol_high_threshold config)
               \<or> nan_greater avg_slope (slope_high_threshold config) then high_vol
            else normal))"

subsection \<open>tune\_thresholds.py\<close>

record sweep_result =
  cash_threshold :: real
  sidebet_threshold :: real
  total_return :: real
  sharpe_ratio :: real
  max_drawdown :: real
  prob_ruin :: real
  trades_count :: int
  final_bankroll :: real

text \<open>The condition of the inner loop: \<open>other\<close> dominates \<open>result\<close>.\<close>

definition dominates :: "sweep_result \<Rightarrow> sweep_result \<Rightarrow> bool" where
  "dominates other result =
     (total_return other \<ge> total_return result \<and>
      sharpe_ratio other \<ge> sharpe_ratio result \<and>
      max_drawdown other \<le> max_drawdown result \<and>
      (total_return other > total_return result \<or>
       sharpe_ratio other > sharpe_ratio result \<or>
       max_drawdown other < max_drawdown result))"

text \<open>The inner loop, with its \<open>break\<close>.\<close>

fun is_dominated :: "sweep_result \<Rightarrow> sweep_result list \<Rightarrow> bool" where
  "is_dominated result [] = False"
| "is_dominated result (other # others) =
     (if dominates other result then True else is_dominated result others)"

text \<open>The outer loop over the results still to visit, appending to \<open>pareto\<close>.\<close>

fun pareto_loop :: "sweep_result list \<Rightarrow> sweep_result list \<Rightarrow> sweep_result list \<Rightarrow> sweep_result list" where
  "pareto_loop results [] pareto = pareto"
| "pareto_loop results (result # todo) pareto =
     pareto_loop results todo
       (if \<not> is_dominated result results then pareto @ [result] else pareto)"

definition sort_by_sharpe_desc :: "sweep_result list \<Rightarrow> sweep_result list" where
  "sort_by_sharpe_desc pareto = sort_key (\<lambda>r. - sharpe_ratio r) pareto"

definition find_pareto_optimal :: "sweep_result list \<Rightarrow> sweep_result list" where
  "find_pareto_optimal results =
     (if results = [] then []
      else sort_by_sharpe_desc (pareto_loop results results []))"

subsection \<open>Inputs used in the examples\<close>

text \<open>A manager created with no state file on disk, whatever else the environment holds.\<close>

definition fresh_manager ::
  "real \<Rightarrow> real \<Rightarrow> real \<Rightarrow> real \<Rightarrow> string \<Rightarrow> environment \<Rightarrow> BankrollManager" where
  "fresh_manager initial_balance_arg kelly_fraction_arg max_daily_loss_pct_arg bet_size_cap_arg
       bankroll_file_arg env =
     BankrollManager_init initial_balance_arg kelly_fraction_arg max_daily_loss_pct_arg
       bet_size_cap_arg bankroll_file_arg (env\<lparr>persisted := None\<rparr>)"

text \<open>
  A manager with the daily limit 29 that started with 129 and lost 29 on its first bet
  of the day: the loss is 29 percent of the balance 100.
\<close>

definition manager_at_limit :: BankrollManager where
  "manager_at_limit =
     fst (update_balance (create_bankroll_manager 129 (1 / 2) 29 5 fresh_env) 0 (- 29) fresh_env)"

text \<open>A default manager that started with 1300 and lost 300 on its first bet of the day.\<close>

definition manager_after_loss :: BankrollManager where
  "manager_after_loss =
     fst (update_balance (create_bankroll_manager 1300 (1 / 2) 20 5 fresh_env) 0 (- 300) fresh_env)"

text \<open>Sweep results that differ in the three objectives only.\<close>

definition objectives :: "real \<Rightarrow> real \<Rightarrow> real \<Rightarrow> sweep_result" where
  "objectives ret sharpe dd =
     \<lparr>cash_threshold = 15 / 100, sidebet_threshold = 25 / 100, total_return = ret,
      sharpe_ratio = sharpe, max_drawdown = dd, prob_ruin = max 0 (min 1 (dd * 2)),
      trades_count = 10, final_bankroll = 1000 * (1 + ret)\<rparr>"

definition sweep_example :: "sweep_result list" where
  "sweep_example =
     [objectives (10 / 100) 1 (20 / 100), objectives (20 / 100) (3 / 2) (10 / 100),
      objectives (5 / 100) 2 (30 / 100)]"


text \<open>
  Rows with both columns present, and windows of them: one too short to judge, one
  whose values equal the low thresholds, and three short ones whose first row points
  another way than the window as a whole, for a configuration that trusts 8 rows.
\<close>

definition round_row_of :: "real \<Rightarrow> real \<Rightarrow> round_row" where
  "round_row_of v s = \<lparr>volatility = Some (py_float v), slope_magnitude = Some (py_float s)\<rparr>"

definition short_window :: "round_row list" where
  "short_window = replicate 49 (round_row_of (5 / 100) (2 / 10))"

definition threshold_window :: "round_row list" where
  "threshold_window = replicate 50 (round_row_of (1 / 10) (5 / 100))"

definition steep_window :: "round_row list" where
  "steep_window =
     round_row_of (5 / 100) (1 / 100) # replicate 9 (round_row_of (5 / 100) (2 / 10))"

definition calm_window :: "round_row list" where
  "calm_window =
     round_row_of (5 / 100) (2 / 10) # replicate 9 (round_row_of (5 / 100) (1 / 100))"

definition middle_window :: "round_row list" where
  "middle_window =
     replicate 4 (round_row_of (2 / 10) (1 / 10))
     @ [\<lparr>volatility = None, slope_magnitude = Some (py_float (1 / 10))\<rparr>]
     @ replicate 5 (round_row_of (2 / 10) (1 / 10))"

definition quick_RegimeConfig :: RegimeConfig where
  "quick_RegimeConfig = default_RegimeConfig\<lparr>min_rounds_per_regime := 8\<rparr>"

section \<open>Properties\<close>

subsection \<open>Probability clamp and holding EV\<close>

text \<open>
  Claim C9. For every real \<open>p\<close>, so for every \<open>p\<close> in \<open>[-5, 5]\<close>, the clamped
  probability lies between \<open>min_probability\<close> and \<open>max_probability\<close>, and clamping a
  clamped value changes nothing. The interval is the claim's own: it needs
  \<open>min_probability \<le> max_probability\<close> to have a member at all. Idempotence holds for
  every configuration.
\<close>

theorem clamp_probability_range_idempotent:
  "(min_probability self \<le> max_probability self \<longrightarrow>
      min_probability self \<le> clamp_probability self p \<and>
      clamp_probability self p \<le> max_probability self) \<and>
   clamp_probability self (clamp_probability self p) = clamp_probability self p"
  by (simp add: clamp_probability_def np_clip_def min_def max_def)

theorem clamp_probability_range_idempotent_witness:
  "min_probability default_EVConfig \<le> max_probability default_EVConfig \<and>
   clamp_probability default_EVConfig 5 = 999999 / 1000000 \<and>
   min_probability default_EVConfig \<le> clamp_probability default_EVConfig 5 \<and>
   clamp_probability default_EVConfig 5 \<le> max_probability default_EVConfig \<and>
   clamp_probability default_EVConfig (clamp_probability default_EVConfig 5)
     = clamp_probability default_EVConfig 5"
  using clamp_probability_range_idempotent [of default_EVConfig 5]
  by (simp add: default_EVConfig_def clamp_probability_def np_clip_def)

text \<open>
  Claim C2. \<open>ev_cash_hold(0, x)\<close> is to be exactly \<open>x * future_gain_multiplier\<close>, and
  the repository's own test \<open>test_ev_cash_hold\<close> asks for it to 6 places at \<open>x = 2\<close>
  with the test configuration (multiplier 1.1, floor 1.01) on the default engine. The
  code does not deliver it: the probability 0 is clamped to \<open>min_probability = 1e-6\<close>,
  the safety floor enters with that weight, and the result is \<open>2.19999881\<close>. It misses
  \<open>2.2\<close> by \<open>1.19e-6\<close>, more than the \<open>5e-7\<close> that agreement to 6 places allows.
\<close>

theorem ev_cash_hold_zero_test_case:
  "clamp_probability default_EVConfig 0 = min_probability default_EVConfig
   \<and> min_probability default_EVConfig = 1 / 1000000
   \<and> ev_cash_hold default_EVConfig 0 2 (Some test_config) = 219999881 / 100000000
   \<and> 2 * future_gain_multiplier_if_survive test_config = 22 / 10
   \<and> \<bar>ev_cash_hold default_EVConfig 0 2 (Some test_config)
        - 2 * future_gain_multiplier_if_survive test_config\<bar> = 119 / 100000000
   \<and> 5 / 10000000 < \<bar>ev_cash_hold default_EVConfig 0 2 (Some test_config)
        - 2 * future_gain_multiplier_if_survive test_config\<bar>"
  by (simp add: ev_cash_hold_def Let_def cfg_or_self_def clamp_probability_def np_clip_def
      default_EVConfig_def test_config_def)

subsection \<open>Rounding\<close>

text \<open>Rounding to double precision moves a number by at most \<open>2^-53\<close> of its size.\<close>

lemma pow2_powi: "pow2 e = 2 powi e"
  by (simp add: pow2_def power_int_def field_simps)

lemma pow2_pos: "0 < pow2 e"
  by (simp add: pow2_powi)

lemma round_half_even_error: "\<bar>of_int (round_half_even y) - y\<bar> \<le> 1 / 2"
  unfolding round_half_even_def Let_def by (auto; linarith)

lemma binary_exponent_bounds:
  assumes "x \<noteq> 0"
  shows "pow2 (binary_exponent x) \<le> \<bar>x\<bar>" and "\<bar>x\<bar> < pow2 (binary_exponent x + 1)"
proof -
  define a where "a = \<bar>x\<bar>"
  with assms have apos: "0 < a" by simp
  have "pow2 (binary_exponent x) \<le> a \<and> a < pow2 (binary_exponent x + 1)"
  proof (cases "1 \<le> a")
    case True
    define n where "n = \<lfloor>a\<rfloor>"
    from True have npos: "0 < n" unfolding n_def by linarith
    from bitlen_bounds [OF npos] have b: "2 ^ nat (bitlen n - 1) \<le> n" "n < 2 ^ nat (bitlen n)"
      by auto
    from npos have bl: "1 \<le> bitlen n" by (simp add: bitlen_alt_def)
    have e: "binary_exponent x = bitlen n - 1"
      using True by (simp add: binary_exponent_def Let_def a_def n_def)
    have p1: "pow2 (bitlen n - 1) = 2 ^ nat (bitlen n - 1)" using bl by (simp add: pow2_def)
    have p2: "pow2 (bitlen n) = 2 ^ nat (bitlen n)" using bl by (simp add: pow2_def)
    have "(2::real) ^ nat (bitlen n - 1) \<le> real_of_int n" using b(1) by simp
    moreover have "real_of_int n \<le> a" unfolding n_def by linarith
    ultimately have lo: "pow2 (bitlen n - 1) \<le> a" unfolding p1 by linarith
    from b(2) have "n + 1 \<le> 2 ^ nat (bitlen n)" by linarith
    then have "real_of_int (n + 1) \<le> (2::real) ^ nat (bitlen n)"
      by (metis of_int_le_iff of_int_numeral of_int_power)
    moreover have "a < real_of_int (n + 1)" unfolding n_def by linarith
    ultimately have hi: "a < pow2 (bitlen n)" unfolding p2 by linarith
    from lo hi e show ?thesis by simp
  next
    case False
    define m where "m = \<lceil>1 / a\<rceil> - 1"
    from False apos have inv: "1 < 1 / a" by (simp add: field_simps)
    then have mpos: "0 < m" unfolding m_def by linarith
    from bitlen_bounds [OF mpos] have b: "2 ^ nat (bitlen m - 1) \<le> m" "m < 2 ^ nat (bitlen m)"
      by auto
    from mpos have bl: "1 \<le> bitlen m" by (simp add: bitlen_alt_def)
    have e: "binary_exponent x = - bitlen m"
      using False by (simp add: binary_exponent_def Let_def a_def m_def)
    have p1: "pow2 (- bitlen m) = 1 / 2 ^ nat (bitlen m)" using bl by (simp add: pow2_def)
    have "1 / a \<le> real_of_int (m + 1)" unfolding m_def by linarith
    moreover from b(2) have "m + 1 \<le> 2 ^ nat (bitlen m)" by linarith
    then have "real_of_int (m + 1) \<le> (2::real) ^ nat (bitlen m)"
      by (metis of_int_le_iff of_int_numeral of_int_power)
    ultimately have "1 / a \<le> 2 ^ nat (bitlen m)" by linarith
    with apos have "1 \<le> a * 2 ^ nat (bitlen m)" by (simp add: field_simps)
    then have lo: "pow2 (- bitlen m) \<le> a" unfolding p1 by (simp add: field_simps)
    have "real_of_int m < 1 / a" unfolding m_def by linarith
    moreover have "(2::real) ^ nat (bitlen m - 1) \<le> real_of_int m" using b(1) by simp
    ultimately have "2 ^ nat (bitlen m - 1) < 1 / a" by linarith
    with apos have lt: "a * 2 ^ nat (bitlen m - 1) < 1" by (simp add: field_simps)
    have hi: "a < pow2 (- bitlen m + 1)"
    proof (cases "bitlen m = 1")
      case True
      with lt show ?thesis by (simp add: pow2_def)
    next
      case False
      with bl have "1 < bitlen m" by simp
      then have p3: "pow2 (- bitlen m + 1) = 1 / 2 ^ nat (bitlen m - 1)"
        by (simp add: pow2_def)
      from lt have "a < 1 / 2 ^ nat (bitlen m - 1)" by (simp add: field_simps)
      then show ?thesis unfolding p3 .
    qed
    from lo hi e show ?thesis by simp
  qed
  then show "pow2 (binary_exponent x) \<le> \<bar>x\<bar>" and "\<bar>x\<bar> < pow2 (binary_exponent x + 1)"
    by (simp_all add: a_def)
qed

lemma round_double_error: "\<bar>round_double x - x\<bar> \<le> \<bar>x\<bar> / 2 ^ 53"
proof (cases "x = 0")
  case True
  then show ?thesis by (simp add: round_double_def)
next
  case False
  define e where "e = binary_exponent x"
  define u where "u = pow2 (e - 52)"
  have upos: "0 < u" by (simp add: u_def pow2_pos)
  have ue: "u * 2 ^ 52 = pow2 e"
    by (simp add: u_def pow2_powi power_int_diff)
  have rd: "round_double x = of_int (round_half_even (x / u)) * u"
    using False by (simp add: round_double_def Let_def e_def u_def)
  have "round_double x - x = (of_int (round_half_even (x / u)) - x / u) * u"
    using upos by (simp add: rd field_simps)
  then have "\<bar>round_double x - x\<bar> = \<bar>of_int (round_half_even (x / u)) - x / u\<bar> * u"
    using upos by (simp add: abs_mult)
  also have "\<dots> \<le> (1 / 2) * u"
    using round_half_even_error [of "x / u"] upos by (intro mult_right_mono) auto
  also have "\<dots> = pow2 e / 2 ^ 53" using ue by (simp add: field_simps)
  also have "\<dots> \<le> \<bar>x\<bar> / 2 ^ 53"
    using binary_exponent_bounds(1) [OF False] by (simp add: e_def divide_right_mono)
  finally show ?thesis .
qed

text \<open>Rules that evaluate the rounded operations on numerals.\<close>

lemmas fl_eval =
  py_float_def fl_add_def fl_mul_def fl_truediv_def round_double_def binary_exponent_def
  pow2_def round_half_even_def compute_bitlen Let_def

text \<open>
  The percentage \<open>(q) * 100\<close> of a rounded quotient, rounded again, is within
  \<open>2^-51\<close> of the exact percentage, relatively.
\<close>

lemma loss_pct_error:
  "\<bar>fl_mul (round_double q) 100 - q * 100\<bar> \<le> \<bar>q * 100\<bar> / 2 ^ 51"
proof -
  define r where "r = round_double q"
  define A where "A = \<bar>q\<bar>"
  have e1: "\<bar>r - q\<bar> \<le> A / 2 ^ 53"
    unfolding r_def A_def by (rule round_double_error)
  have "\<bar>round_double (r * 100) - r * 100\<bar> \<le> \<bar>r * 100\<bar> / 2 ^ 53"
    by (rule round_double_error)
  then have e2: "\<bar>round_double (r * 100) - r * 100\<bar> \<le> 100 * \<bar>r\<bar> / 2 ^ 53"
    by (simp add: abs_mult)
  have rb: "\<bar>r\<bar> \<le> A + A / 2 ^ 53" using e1 unfolding A_def by linarith
  have Apos: "0 \<le> A" by (simp add: A_def)
  have "\<bar>round_double (r * 100) - q * 100\<bar>
          = \<bar>(round_double (r * 100) - r * 100) + 100 * (r - q)\<bar>"
    by (simp add: algebra_simps)
  also have "\<dots> \<le> \<bar>round_double (r * 100) - r * 100\<bar> + \<bar>100 * (r - q)\<bar>"
    by (rule abs_triangle_ineq)
  also have "\<dots> = \<bar>round_double (r * 100) - r * 100\<bar> + 100 * \<bar>r - q\<bar>"
    by (simp only: abs_mult abs_numeral)
  finally have tri: "\<bar>round_double (r * 100) - q * 100\<bar>
               \<le> \<bar>round_double (r * 100) - r * 100\<bar> + 100 * \<bar>r - q\<bar>" .
  define X where "X = \<bar>round_double (r * 100) - r * 100\<bar>"
  define Y where "Y = \<bar>r - q\<bar>"
  define Z where "Z = \<bar>r\<bar>"
  define T where "T = \<bar>round_double (r * 100) - q * 100\<bar>"
  have "T \<le> X + 100 * Y" "X \<le> 100 * Z / 2 ^ 53" "Y \<le> A / 2 ^ 53" "Z \<le> A + A / 2 ^ 53"
    using tri e1 e2 rb by (simp_all add: X_def Y_def Z_def T_def)
  with Apos have "T \<le> 100 * A / 2 ^ 51" by simp
  then have "\<bar>round_double (r * 100) - q * 100\<bar> \<le> 100 * A / 2 ^ 51"
    by (simp add: T_def)
  then show ?thesis by (simp add: fl_mul_def r_def A_def abs_mult)
qed

subsection \<open>Bankroll manager\<close>

lemma update_state_counts:
  "wins (update_state st r) + losses (update_state st r) = wins st + losses st + 1"
  "total_bets (update_state st r) = total_bets st + 1"
  by (simp_all add: update_state_def Let_def)

lemma update_state_extrema:
  "min_balance (update_state st r) \<le> balance (update_state st r)"
  "balance (update_state st r) \<le> max_balance (update_state st r)"
  by (simp_all add: update_state_def Let_def)

lemma state_update_balance:
  "state (fst (update_balance self b r env))
     = (if can_write env then (update_state (state self) r)\<lparr>last_updated := now env\<rparr>
        else update_state (state self) r)"
  by (simp add: update_balance_def save_state_def Let_def)

lemma update_balance_extrema:
  "min_balance (state (fst (update_balance self b r env)))
     \<le> balance (state (fst (update_balance self b r env)))"
  "balance (state (fst (update_balance self b r env)))
     \<le> max_balance (state (fst (update_balance self b r env)))"
  by (simp_all add: state_update_balance update_state_extrema)

lemma update_balance_counts:
  assumes "wins (state self) + losses (state self) = total_bets (state self)"
  shows "wins (state (fst (update_balance self b r env)))
           + losses (state (fst (update_balance self b r env)))
         = total_bets (state (fst (update_balance self b r env)))"
  using assms by (simp add: state_update_balance update_state_counts)

lemma run_updates_counts:
  "wins (state self) + losses (state self) = total_bets (state self) \<Longrightarrow>
   wins (state (run_updates self calls)) + losses (state (run_updates self calls))
     = total_bets (state (run_updates self calls))"
proof (induction self calls rule: run_updates.induct)
  case (1 self)
  then show ?case by simp
next
  case (2 self bet_amount result env calls)
  from "2.prems" have "wins (state (fst (update_balance self bet_amount result env)))
           + losses (state (fst (update_balance self bet_amount result env)))
         = total_bets (state (fst (update_balance self bet_amount result env)))"
    by (rule update_balance_counts)
  with "2.IH" show ?case by simp
qed

lemma run_updates_extrema:
  "min_balance (state self) \<le> balance (state self) \<and> balance (state self) \<le> max_balance (state self)
   \<Longrightarrow> min_balance (state (run_updates self calls)) \<le> balance (state (run_updates self calls))
       \<and> balance (state (run_updates self calls)) \<le> max_balance (state (run_updates self calls))"
proof (induction self calls rule: run_updates.induct)
  case (1 self)
  then show ?case by simp
next
  case (2 self bet_amount result env calls)
  have "min_balance (state (fst (update_balance self bet_amount result env)))
          \<le> balance (state (fst (update_balance self bet_amount result env)))
      \<and> balance (state (fst (update_balance self bet_amount result env)))
          \<le> max_balance (state (fst (update_balance self bet_amount result env)))"
    by (simp add: update_balance_extrema)
  with "2.IH" show ?case by simp
qed

lemma fresh_manager_state:
  "state (fresh_manager ib kf mdl cap file env) = new_state ib (env\<lparr>persisted := None\<rparr>)"
  by (simp add: fresh_manager_def BankrollManager_init_def load_state_def)

text \<open>
  Claim C1. Start from a freshly created manager and make any finite sequence of
  \<open>update_balance\<close> calls, with any bet amounts and any real results: afterwards
  \<open>wins + losses = total_bets\<close> and \<open>min_balance \<le> balance \<le> max_balance\<close>. The list
  \<open>calls\<close> is arbitrary, so this holds after every call of a sequence. The last two
  conjuncts say that the bounds on the balance hold after a call on any manager at all.
\<close>

theorem update_balance_invariants:
  "wins (state (run_updates (fresh_manager ib kf mdl cap file env) calls))
     + losses (state (run_updates (fresh_manager ib kf mdl cap file env) calls))
     = total_bets (state (run_updates (fresh_manager ib kf mdl cap file env) calls))
   \<and> min_balance (state (run_updates (fresh_manager ib kf mdl cap file env) calls))
       \<le> balance (state (run_updates (fresh_manager ib kf mdl cap file env) calls))
   \<and> balance (state (run_updates (fresh_manager ib kf mdl cap file env) calls))
       \<le> max_balance (state (run_updates (fresh_manager ib kf mdl cap file env) calls))
   \<and> min_balance (state (fst (update_balance self bet_amount result env2)))
       \<le> balance (state (fst (update_balance self bet_amount result env2)))
   \<and> balance (state (fst (update_balance self bet_amount result env2)))
       \<le> max_balance (state (fst (update_balance self bet_amount result env2)))"
proof -
  let ?m = "fresh_manager ib kf mdl cap file env"
  have c: "wins (state ?m) + losses (state ?m) = total_bets (state ?m)"
    by (simp add: fresh_manager_state new_state_def)
  have e: "min_balance (state ?m) \<le> balance (state ?m) \<and> balance (state ?m) \<le> max_balance (state ?m)"
    by (simp add: fresh_manager_state new_state_def)
  from run_updates_counts [OF c] run_updates_extrema [OF e] update_balance_extrema
  show ?thesis by blast
qed

text \<open>
  Claim C4. \<open>size_bet\<close> returns 0 when \<open>edge \<le> 0\<close>, \<open>edge \<ge> 1\<close> or \<open>odds \<le> 1\<close>; for
  all other inputs it returns the Kelly fraction \<open>(b*p - q)/b\<close> times
  \<open>kelly_fraction\<close>, capped by \<open>bet_size_cap\<close> and then raised to 0. It never raises
  (the divisor \<open>odds - 1\<close> is positive where it is used), its value is never negative,
  and it is at most \<open>bet_size_cap\<close>, the cap being a non-negative fraction as the
  interval \<open>[0, bet_size_cap]\<close> of the claim requires.
\<close>

theorem size_bet_bounds:
  "(edge \<le> 0 \<or> edge \<ge> 1 \<or> odds \<le> 1 \<longrightarrow> size_bet self edge odds = Inr 0) \<and>
   (\<exists>v. size_bet self edge odds = Inr v \<and> 0 \<le> v \<and>
        (0 \<le> bet_size_cap self \<longrightarrow> v \<le> bet_size_cap self)) \<and>
   (0 < edge \<and> edge < 1 \<and> 1 < odds \<longrightarrow>
      size_bet self edge odds =
        Inr (max 0 (min (((odds - 1) * edge - (1 - edge)) / (odds - 1) * kelly_fraction self)
                        (bet_size_cap self))))"
  by (auto simp add: size_bet_def py_truediv_def Let_def)

theorem size_bet_bounds_witness:
  "size_bet (default_bankroll_manager fresh_env) 0 2 = Inr 0 \<and>
   0 \<le> bet_size_cap (default_bankroll_manager fresh_env) \<and>
   size_bet (default_bankroll_manager fresh_env) (6 / 10) 2 = Inr (5 / 100) \<and>
   5 / 100 \<le> bet_size_cap (default_bankroll_manager fresh_env) \<and>
   size_bet (default_bankroll_manager fresh_env) (51 / 100) 2 = Inr (1 / 100)"
  using size_bet_bounds [of 0 2 "default_bankroll_manager fresh_env"]
    size_bet_bounds [of "6 / 10" 2 "default_bankroll_manager fresh_env"]
    size_bet_bounds [of "51 / 100" 2 "default_bankroll_manager fresh_env"]
  by (simp add: default_bankroll_manager_def create_bankroll_manager_def
      BankrollManager_init_def)

text \<open>
  Claim C5, as stated: \<open>apply_daily_loss_cap\<close> is true exactly when the balance is
  positive and \<open>daily_loss / balance < max_daily_loss_pct\<close>. It fails for the default
  manager with balance 1000 after a loss of 300 today: \<open>300 / 1000 = 0.3\<close> is below the
  limit 20, exactly and as a double, yet the code returns false, because it compares the
  percentage 30.
\<close>

theorem apply_daily_loss_cap_counterexample:
  "apply_daily_loss_cap manager_after_loss = Inr False \<and>
   0 < balance (state manager_after_loss) \<and>
   daily_loss (state manager_after_loss) / balance (state manager_after_loss)
     < max_daily_loss_pct manager_after_loss \<and>
   round_double (daily_loss (state manager_after_loss) / balance (state manager_after_loss))
     < max_daily_loss_pct manager_after_loss"
  by (simp add: manager_after_loss_def apply_daily_loss_cap_def fl_eval
      update_balance_def save_state_def update_state_def
      create_bankroll_manager_def BankrollManager_init_def load_state_def new_state_def
      fresh_env_def)

text \<open>
  Claim C5, amended. \<open>apply_daily_loss_cap\<close> never raises, and it returns true exactly
  when the balance is positive and the daily loss as a percentage of the balance,
  \<open>(daily_loss / balance) * 100\<close> as the code computes it in double precision, is below
  \<open>max_daily_loss_pct\<close>. So it is false for every balance \<open>\<le> 0\<close>, and a zero balance is
  never a divisor. The computed percentage is the exact one up to a relative error of
  \<open>2^-51\<close>.
\<close>

theorem apply_daily_loss_cap_percent:
  "apply_daily_loss_cap self =
     Inr (0 < balance (state self) \<and>
          fl_mul (round_double (daily_loss (state self) / balance (state self))) 100
            < max_daily_loss_pct self)
   \<and> \<bar>fl_mul (round_double (daily_loss (state self) / balance (state self))) 100
        - (daily_loss (state self) / balance (state self)) * 100\<bar>
       \<le> \<bar>(daily_loss (state self) / balance (state self)) * 100\<bar> / 2 ^ 51"
proof (rule conjI)
  show "apply_daily_loss_cap self =
     Inr (0 < balance (state self) \<and>
          fl_mul (round_double (daily_loss (state self) / balance (state self))) 100
            < max_daily_loss_pct self)"
    by (simp add: apply_daily_loss_cap_def fl_truediv_def Let_def)
  show "\<bar>fl_mul (round_double (daily_loss (state self) / balance (state self))) 100
        - (daily_loss (state self) / balance (state self)) * 100\<bar>
       \<le> \<bar>(daily_loss (state self) / balance (state self)) * 100\<bar> / 2 ^ 51"
    by (rule loss_pct_error)
qed

text \<open>
  At the limit itself the rounding decides: with balance 100, a loss of 29 and the limit
  29 the computed percentage is \<open>28.999999999999996\<close>, and betting may continue.
\<close>

theorem apply_daily_loss_cap_percent_witness:
  "balance (state manager_at_limit) = 100 \<and> daily_loss (state manager_at_limit) = 29
   \<and> max_daily_loss_pct manager_at_limit = 29
   \<and> fl_mul (round_double (daily_loss (state manager_at_limit)
                              / balance (state manager_at_limit))) 100
       = 8162774324609023 / 281474976710656
   \<and> apply_daily_loss_cap manager_at_limit = Inr True"
  using apply_daily_loss_cap_percent [of manager_at_limit]
  by (simp add: manager_at_limit_def fl_eval
      update_balance_def save_state_def update_state_def
      create_bankroll_manager_def BankrollManager_init_def load_state_def new_state_def
      fresh_env_def)

subsection \<open>Pareto frontier\<close>

lemma is_dominated_iff: "is_dominated r rs = (\<exists>other \<in> set rs. dominates other r)"
  by (induction rs) auto

lemma pareto_loop_filter:
  "pareto_loop results todo pareto = pareto @ filter (\<lambda>r. \<not> is_dominated r results) todo"
  by (induction todo arbitrary: pareto) auto

lemma set_find_pareto_optimal:
  "set (find_pareto_optimal rs) = {r \<in> set rs. \<not> (\<exists>other \<in> set rs. dominates other r)}"
  by (auto simp add: find_pareto_optimal_def sort_by_sharpe_desc_def pareto_loop_filter
      is_dominated_iff)

lemma sorted_find_pareto_optimal:
  "sorted_wrt (\<lambda>a b. sharpe_ratio a \<ge> sharpe_ratio b) (find_pareto_optimal rs)"
proof -
  have "sorted (map (\<lambda>r. - sharpe_ratio r) (sort_by_sharpe_desc xs))" for xs
    by (simp add: sort_by_sharpe_desc_def)
  then have "sorted_wrt (\<lambda>a b. sharpe_ratio a \<ge> sharpe_ratio b) (sort_by_sharpe_desc xs)" for xs
    by (simp add: sorted_map)
  then show ?thesis by (simp add: find_pareto_optimal_def)
qed

lemma find_pareto_optimal_example:
  "find_pareto_optimal sweep_example
     = [objectives (5 / 100) 2 (30 / 100), objectives (20 / 100) (3 / 2) (10 / 100)]"
  by (simp add: find_pareto_optimal_def sweep_example_def sort_by_sharpe_desc_def
      dominates_def objectives_def)

text \<open>
  Claim C7. In the list \<open>find_pareto_optimal\<close> returns, no result is dominated by
  another result of that list, where \<open>B\<close> dominates \<open>A\<close> when \<open>B\<close> is at least as good
  in total return, Sharpe ratio and maximal drawdown and strictly better in one of them;
  and the list is sorted by Sharpe ratio, highest first.
\<close>

theorem find_pareto_optimal_frontier:
  "(\<forall>a \<in> set (find_pareto_optimal rs). \<forall>b \<in> set (find_pareto_optimal rs). \<not> dominates b a)
   \<and> sorted_wrt (\<lambda>a b. sharpe_ratio a \<ge> sharpe_ratio b) (find_pareto_optimal rs)"
  by (auto simp add: set_find_pareto_optimal sorted_find_pareto_optimal)

theorem find_pareto_optimal_frontier_witness:
  "find_pareto_optimal sweep_example
     = [objectives (5 / 100) 2 (30 / 100), objectives (20 / 100) (3 / 2) (10 / 100)]
   \<and> \<not> dominates (objectives (5 / 100) 2 (30 / 100)) (objectives (20 / 100) (3 / 2) (10 / 100))
   \<and> \<not> dominates (objectives (20 / 100) (3 / 2) (10 / 100)) (objectives (5 / 100) 2 (30 / 100))
   \<and> sharpe_ratio (objectives (5 / 100) 2 (30 / 100))
       \<ge> sharpe_ratio (objectives (20 / 100) (3 / 2) (10 / 100))"
  using find_pareto_optimal_frontier [of sweep_example]
  by (simp add: find_pareto_optimal_example)





subsection \<open>Regime detection\<close>

text \<open>The doubles that the decimal literals of the examples denote.\<close>

lemma py_float_literals:
  "py_float (1 / 100) = 5764607523034235 / 576460752303423488"
  "py_float (5 / 100) = 3602879701896397 / 72057594037927936"
  "py_float (1 / 10) = 3602879701896397 / 36028797018963968"
  "py_float (15 / 100) = 5404319552844595 / 36028797018963968"
  "py_float (2 / 10) = 3602879701896397 / 18014398509481984"
  "py_float (3 / 10) = 5404319552844595 / 18014398509481984"
  by (simp_all add: fl_eval)

lemma replicate_50:
  "replicate 50 x =
     [x, x, x, x, x, x, x, x, x, x, x, x, x, x, x, x, x, x, x, x, x, x, x, x, x,
      x, x, x, x, x, x, x, x, x, x, x, x, x, x, x, x, x, x, x, x, x, x, x, x, x]"
  by (simp add: numeral_eq_Suc)

lemma replicate_small:
  "replicate 9 x = [x, x, x, x, x, x, x, x, x]"
  "replicate 5 x = [x, x, x, x, x]"
  "replicate 4 x = [x, x, x, x]"
  by (simp_all add: numeral_eq_Suc)

text \<open>
  The mean of a column of fifty present values, before its sum is evaluated.
\<close>

lemma series_mean_replicate_50:
  "series_mean (replicate 50 (Some d))
     = Some (round_double (pairwise_sum (replicate 50 d) / 50))"
  by (simp add: series_mean_def del: pairwise_sum.simps not_None_eq)

text \<open>
  Fifty values \<open>0.1\<close> have the computed mean \<open>0.09999999999999998\<close>, and fifty values
  \<open>0.05\<close> the computed mean \<open>0.04999999999999999\<close>: both below the value itself.
\<close>

lemma pairwise_sum_fifty:
  "pairwise_sum (replicate 50 (3602879701896397 / 36028797018963968)) = 5629499534213119 / 1125899906842624"
  "pairwise_sum (replicate 50 (3602879701896397 / 72057594037927936)) = 5629499534213119 / 2251799813685248"
  unfolding replicate_50 by (simp_all add: fl_eval)

lemma series_mean_threshold_window:
  "series_mean (map volatility threshold_window) = Some (900719925474099 / 9007199254740992)"
  "series_mean (map slope_magnitude threshold_window)
     = Some (900719925474099 / 18014398509481984)"
proof -
  have c: "map volatility threshold_window = replicate 50 (Some (3602879701896397 / 36028797018963968))"
    "map slope_magnitude threshold_window = replicate 50 (Some (3602879701896397 / 72057594037927936))"
    unfolding threshold_window_def round_row_of_def py_float_literals by simp_all
  show "series_mean (map volatility threshold_window)
          = Some (900719925474099 / 9007199254740992)"
    unfolding c series_mean_replicate_50 pairwise_sum_fifty by (simp add: fl_eval)
  show "series_mean (map slope_magnitude threshold_window)
          = Some (900719925474099 / 18014398509481984)"
    unfolding c series_mean_replicate_50 pairwise_sum_fifty by (simp add: fl_eval)
qed

text \<open>The three windows of ten rows, column by column.\<close>

lemma pairwise_sum_ten:
  "pairwise_sum [3602879701896397 / 72057594037927936, 3602879701896397 / 72057594037927936, 3602879701896397 / 72057594037927936, 3602879701896397 / 72057594037927936, 3602879701896397 / 72057594037927936, 3602879701896397 / 72057594037927936, 3602879701896397 / 72057594037927936, 3602879701896397 / 72057594037927936, 3602879701896397 / 72057594037927936, 3602879701896397 / 72057594037927936] = 1 / 2"
  "pairwise_sum [5764607523034235 / 576460752303423488, 3602879701896397 / 18014398509481984, 3602879701896397 / 18014398509481984, 3602879701896397 / 18014398509481984, 3602879701896397 / 18014398509481984, 3602879701896397 / 18014398509481984, 3602879701896397 / 18014398509481984, 3602879701896397 / 18014398509481984, 3602879701896397 / 18014398509481984, 3602879701896397 / 18014398509481984] = 4075757662770299 / 2251799813685248"
  "pairwise_sum [3602879701896397 / 18014398509481984, 5764607523034235 / 576460752303423488, 5764607523034235 / 576460752303423488, 5764607523034235 / 576460752303423488, 5764607523034235 / 576460752303423488, 5764607523034235 / 576460752303423488, 5764607523034235 / 576460752303423488, 5764607523034235 / 576460752303423488, 5764607523034235 / 576460752303423488, 5764607523034235 / 576460752303423488] = 326510972984361 / 1125899906842624"
  "pairwise_sum [3602879701896397 / 18014398509481984, 3602879701896397 / 18014398509481984, 3602879701896397 / 18014398509481984, 3602879701896397 / 18014398509481984, 0, 3602879701896397 / 18014398509481984, 3602879701896397 / 18014398509481984, 3602879701896397 / 18014398509481984, 3602879701896397 / 18014398509481984, 3602879701896397 / 18014398509481984] = 8106479329266893 / 4503599627370496"
  "pairwise_sum [3602879701896397 / 36028797018963968, 3602879701896397 / 36028797018963968, 3602879701896397 / 36028797018963968, 3602879701896397 / 36028797018963968, 3602879701896397 / 36028797018963968, 3602879701896397 / 36028797018963968, 3602879701896397 / 36028797018963968, 3602879701896397 / 36028797018963968, 3602879701896397 / 36028797018963968, 3602879701896397 / 36028797018963968] = 1"
  by (simp_all add: fl_eval)

lemma series_mean_steep_window:
  "series_mean (map volatility steep_window) = Some (3602879701896397 / 72057594037927936)"
  "series_mean (map slope_magnitude steep_window)
     = Some (3260606130216239 / 18014398509481984)"
proof -
  have c: "map volatility steep_window = map Some [3602879701896397 / 72057594037927936, 3602879701896397 / 72057594037927936, 3602879701896397 / 72057594037927936, 3602879701896397 / 72057594037927936, 3602879701896397 / 72057594037927936, 3602879701896397 / 72057594037927936, 3602879701896397 / 72057594037927936, 3602879701896397 / 72057594037927936, 3602879701896397 / 72057594037927936, 3602879701896397 / 72057594037927936]"
    "map slope_magnitude steep_window = map Some [5764607523034235 / 576460752303423488, 3602879701896397 / 18014398509481984, 3602879701896397 / 18014398509481984, 3602879701896397 / 18014398509481984, 3602879701896397 / 18014398509481984, 3602879701896397 / 18014398509481984, 3602879701896397 / 18014398509481984, 3602879701896397 / 18014398509481984, 3602879701896397 / 18014398509481984, 3602879701896397 / 18014398509481984]"
    unfolding steep_window_def round_row_of_def py_float_literals replicate_small by simp_all
  have m: "series_mean (map Some [3602879701896397 / 72057594037927936, 3602879701896397 / 72057594037927936, 3602879701896397 / 72057594037927936, 3602879701896397 / 72057594037927936, 3602879701896397 / 72057594037927936, 3602879701896397 / 72057594037927936, 3602879701896397 / 72057594037927936, 3602879701896397 / 72057594037927936, 3602879701896397 / 72057594037927936, 3602879701896397 / 72057594037927936]) = Some (round_double (pairwise_sum [3602879701896397 / 72057594037927936, 3602879701896397 / 72057594037927936, 3602879701896397 / 72057594037927936, 3602879701896397 / 72057594037927936, 3602879701896397 / 72057594037927936, 3602879701896397 / 72057594037927936, 3602879701896397 / 72057594037927936, 3602879701896397 / 72057594037927936, 3602879701896397 / 72057594037927936, 3602879701896397 / 72057594037927936] / 10))"
    "series_mean (map Some [5764607523034235 / 576460752303423488, 3602879701896397 / 18014398509481984, 3602879701896397 / 18014398509481984, 3602879701896397 / 18014398509481984, 3602879701896397 / 18014398509481984, 3602879701896397 / 18014398509481984, 3602879701896397 / 18014398509481984, 3602879701896397 / 18014398509481984, 3602879701896397 / 18014398509481984, 3602879701896397 / 18014398509481984]) = Some (round_double (pairwise_sum [5764607523034235 / 576460752303423488, 3602879701896397 / 18014398509481984, 3602879701896397 / 18014398509481984, 3602879701896397 / 18014398509481984, 3602879701896397 / 18014398509481984, 3602879701896397 / 18014398509481984, 3602879701896397 / 18014398509481984, 3602879701896397 / 18014398509481984, 3602879701896397 / 18014398509481984, 3602879701896397 / 18014398509481984] / 10))"
    by (simp_all add: series_mean_def del: pairwise_sum.simps not_None_eq)
  show "series_mean (map volatility steep_window) = Some (3602879701896397 / 72057594037927936)"
    unfolding c m pairwise_sum_ten by (simp add: fl_eval)
  show "series_mean (map slope_magnitude steep_window)
          = Some (3260606130216239 / 18014398509481984)"
    unfolding c m pairwise_sum_ten by (simp add: fl_eval)
qed

lemma series_mean_calm_window:
  "series_mean (map volatility calm_window) = Some (3602879701896397 / 72057594037927936)"
  "series_mean (map slope_magnitude calm_window)
     = Some (4179340454199821 / 144115188075855872)"
proof -
  have c: "map volatility calm_window = map Some [3602879701896397 / 72057594037927936, 3602879701896397 / 72057594037927936, 3602879701896397 / 72057594037927936, 3602879701896397 / 72057594037927936, 3602879701896397 / 72057594037927936, 3602879701896397 / 72057594037927936, 3602879701896397 / 72057594037927936, 3602879701896397 / 72057594037927936, 3602879701896397 / 72057594037927936, 3602879701896397 / 72057594037927936]"
    "map slope_magnitude calm_window = map Some [3602879701896397 / 18014398509481984, 5764607523034235 / 576460752303423488, 5764607523034235 / 576460752303423488, 5764607523034235 / 576460752303423488, 5764607523034235 / 576460752303423488, 5764607523034235 / 576460752303423488, 5764607523034235 / 576460752303423488, 5764607523034235 / 576460752303423488, 5764607523034235 / 576460752303423488, 5764607523034235 / 576460752303423488]"
    unfolding calm_window_def round_row_of_def py_float_literals replicate_small by simp_all
  have m: "series_mean (map Some [3602879701896397 / 72057594037927936, 3602879701896397 / 72057594037927936, 3602879701896397 / 72057594037927936, 3602879701896397 / 72057594037927936, 3602879701896397 / 72057594037927936, 3602879701896397 / 72057594037927936, 3602879701896397 / 72057594037927936, 3602879701896397 / 72057594037927936, 3602879701896397 / 72057594037927936, 3602879701896397 / 72057594037927936]) = Some (round_double (pairwise_sum [3602879701896397 / 72057594037927936, 3602879701896397 / 72057594037927936, 3602879701896397 / 72057594037927936, 3602879701896397 / 72057594037927936, 3602879701896397 / 72057594037927936, 3602879701896397 / 72057594037927936, 3602879701896397 / 72057594037927936, 3602879701896397 / 72057594037927936, 3602879701896397 / 72057594037927936, 3602879701896397 / 72057594037927936] / 10))"
    "series_mean (map Some [3602879701896397 / 18014398509481984, 5764607523034235 / 576460752303423488, 5764607523034235 / 576460752303423488, 5764607523034235 / 576460752303423488, 5764607523034235 / 576460752303423488, 5764607523034235 / 576460752303423488, 5764607523034235 / 576460752303423488, 5764607523034235 / 576460752303423488, 5764607523034235 / 576460752303423488, 5764607523034235 / 576460752303423488]) = Some (round_double (pairwise_sum [3602879701896397 / 18014398509481984, 5764607523034235 / 576460752303423488, 5764607523034235 / 576460752303423488, 5764607523034235 / 576460752303423488, 5764607523034235 / 576460752303423488, 5764607523034235 / 576460752303423488, 5764607523034235 / 576460752303423488, 5764607523034235 / 576460752303423488, 5764607523034235 / 576460752303423488, 5764607523034235 / 576460752303423488] / 10))"
    by (simp_all add: series_mean_def del: pairwise_sum.simps not_None_eq)
  show "series_mean (map volatility calm_window) = Some (3602879701896397 / 72057594037927936)"
    unfolding c m pairwise_sum_ten by (simp add: fl_eval)
  show "series_mean (map slope_magnitude calm_window)
          = Some (4179340454199821 / 144115188075855872)"
    unfolding c m pairwise_sum_ten by (simp add: fl_eval)
qed

text \<open>A missing value counts as 0 in the sum and is left out of the count.\<close>

lemma series_mean_middle_window:
  "series_mean (map volatility middle_window) = Some (3602879701896397 / 18014398509481984)"
  "series_mean (map slope_magnitude middle_window) = Some (3602879701896397 / 36028797018963968)"
proof -
  have c: "map volatility middle_window = [Some (3602879701896397 / 18014398509481984), Some (3602879701896397 / 18014398509481984), Some (3602879701896397 / 18014398509481984), Some (3602879701896397 / 18014398509481984), None, Some (3602879701896397 / 18014398509481984), Some (3602879701896397 / 18014398509481984), Some (3602879701896397 / 18014398509481984), Some (3602879701896397 / 18014398509481984), Some (3602879701896397 / 18014398509481984)]"
    "map slope_magnitude middle_window = map Some [3602879701896397 / 36028797018963968, 3602879701896397 / 36028797018963968, 3602879701896397 / 36028797018963968, 3602879701896397 / 36028797018963968, 3602879701896397 / 36028797018963968, 3602879701896397 / 36028797018963968, 3602879701896397 / 36028797018963968, 3602879701896397 / 36028797018963968, 3602879701896397 / 36028797018963968, 3602879701896397 / 36028797018963968]"
    unfolding middle_window_def round_row_of_def py_float_literals replicate_small by simp_all
  have m: "series_mean [Some (3602879701896397 / 18014398509481984), Some (3602879701896397 / 18014398509481984), Some (3602879701896397 / 18014398509481984), Some (3602879701896397 / 18014398509481984), None, Some (3602879701896397 / 18014398509481984), Some (3602879701896397 / 18014398509481984), Some (3602879701896397 / 18014398509481984), Some (3602879701896397 / 18014398509481984), Some (3602879701896397 / 18014398509481984)] = Some (round_double (pairwise_sum [3602879701896397 / 18014398509481984, 3602879701896397 / 18014398509481984, 3602879701896397 / 18014398509481984, 3602879701896397 / 18014398509481984, 0, 3602879701896397 / 18014398509481984, 3602879701896397 / 18014398509481984, 3602879701896397 / 18014398509481984, 3602879701896397 / 18014398509481984, 3602879701896397 / 18014398509481984] / 9))"
    "series_mean (map Some [3602879701896397 / 36028797018963968, 3602879701896397 / 36028797018963968, 3602879701896397 / 36028797018963968, 3602879701896397 / 36028797018963968, 3602879701896397 / 36028797018963968, 3602879701896397 / 36028797018963968, 3602879701896397 / 36028797018963968, 3602879701896397 / 36028797018963968, 3602879701896397 / 36028797018963968, 3602879701896397 / 36028797018963968]) = Some (round_double (pairwise_sum [3602879701896397 / 36028797018963968, 3602879701896397 / 36028797018963968, 3602879701896397 / 36028797018963968, 3602879701896397 / 36028797018963968, 3602879701896397 / 36028797018963968, 3602879701896397 / 36028797018963968, 3602879701896397 / 36028797018963968, 3602879701896397 / 36028797018963968, 3602879701896397 / 36028797018963968, 3602879701896397 / 36028797018963968] / 10))"
    by (simp_all add: series_mean_def del: pairwise_sum.simps not_None_eq)
  show "series_mean (map volatility middle_window) = Some (3602879701896397 / 18014398509481984)"
    unfolding c m pairwise_sum_ten by (simp add: fl_eval)
  show "series_mean (map slope_magnitude middle_window) = Some (3602879701896397 / 36028797018963968)"
    unfolding c m pairwise_sum_ten by (simp add: fl_eval)
qed

lemma default_RegimeConfig_thresholds:
  "vol_low_threshold default_RegimeConfig = 3602879701896397 / 36028797018963968"
  "vol_high_threshold default_RegimeConfig = 5404319552844595 / 18014398509481984"
  "slope_low_threshold default_RegimeConfig = 3602879701896397 / 72057594037927936"
  "slope_high_threshold default_RegimeConfig = 5404319552844595 / 36028797018963968"
  "min_rounds_per_regime default_RegimeConfig = 50"
  unfolding default_RegimeConfig_def py_float_literals by simp_all

lemma window_lengths:
  "length short_window = 49" "length threshold_window = 50" "length steep_window = 10"
  "length calm_window = 10" "length middle_window = 10"
  by (simp_all add: short_window_def threshold_window_def steep_window_def calm_window_def
      middle_window_def)

text \<open>
  Claim C6. A window with fewer than \<open>min_rounds_per_regime\<close> rows is \<open>normal\<close>
  whatever its statistics. For a window with at least that many rows the result is
  \<open>low_vol\<close> exactly when the mean volatility is below \<open>vol_low_threshold\<close> and the mean
  slope magnitude is below \<open>slope_low_threshold\<close>; otherwise it is \<open>high_vol\<close> exactly
  when one of the means exceeds its high threshold, and \<open>normal\<close> exactly when none
  does. Where each low threshold is at most its high threshold, as in the defaults, a
  mean above its high threshold excludes the calm case, so it alone gives \<open>high_vol\<close>.
  The means are those the code computes: the column's double-precision mean, NaN for a
  column with no value, which is neither below nor above anything.
\<close>

theorem detect_regime_cases:
  "(int (length data) < min_rounds_per_regime config \<longrightarrow> detect_regime config data = normal)
   \<and> (min_rounds_per_regime config \<le> int (length data) \<longrightarrow>
        (detect_regime config data = low_vol \<longleftrightarrow>
           nan_less (series_mean (map volatility data)) (vol_low_threshold config) \<and>
           nan_less (series_mean (map slope_magnitude data)) (slope_low_threshold config))
      \<and> (detect_regime config data = high_vol \<longleftrightarrow>
           \<not> (nan_less (series_mean (map volatility data)) (vol_low_threshold config) \<and>
              nan_less (series_mean (map slope_magnitude data)) (slope_low_threshold config)) \<and>
           (nan_greater (series_mean (map volatility data)) (vol_high_threshold config) \<or>
            nan_greater (series_mean (map slope_magnitude data)) (slope_high_threshold config)))
      \<and> (detect_regime config data = normal \<longleftrightarrow>
           \<not> (nan_less (series_mean (map volatility data)) (vol_low_threshold config) \<and>
              nan_less (series_mean (map slope_magnitude data)) (slope_low_threshold config)) \<and>
           \<not> (nan_greater (series_mean (map volatility data)) (vol_high_threshold config) \<or>
              nan_greater (series_mean (map slope_magnitude data)) (slope_high_threshold config)))
      \<and> (vol_low_threshold config \<le> vol_high_threshold config \<and>
          slope_low_threshold config \<le> slope_high_threshold config \<and>
          (nan_greater (series_mean (map volatility data)) (vol_high_threshold config) \<or>
           nan_greater (series_mean (map slope_magnitude data)) (slope_high_threshold config))
          \<longrightarrow> detect_regime config data = high_vol))"
  by (auto simp add: detect_regime_def Let_def nan_less_def nan_greater_def
      split: option.splits)

text \<open>
  The short window is \<open>normal\<close> although its slope is steep. The window of fifty rows
  \<open>(0.1, 0.05)\<close> is \<open>low_vol\<close>, since both computed means fall just below the
  thresholds \<open>0.1\<close> and \<open>0.05\<close>. The three windows of ten rows are judged by their
  means and not by their first rows.
\<close>

theorem detect_regime_cases_witness:
  "int (length short_window) < min_rounds_per_regime default_RegimeConfig
   \<and> detect_regime default_RegimeConfig short_window = normal
   \<and> min_rounds_per_regime default_RegimeConfig \<le> int (length threshold_window)
   \<and> series_mean (map volatility threshold_window)
       = Some (900719925474099 / 9007199254740992)
   \<and> nan_less (series_mean (map volatility threshold_window))
        (vol_low_threshold default_RegimeConfig)
   \<and> nan_less (series_mean (map slope_magnitude threshold_window))
        (slope_low_threshold default_RegimeConfig)
   \<and> detect_regime default_RegimeConfig threshold_window = low_vol
   \<and> min_rounds_per_regime quick_RegimeConfig \<le> int (length steep_window)
   \<and> vol_low_threshold quick_RegimeConfig \<le> vol_high_threshold quick_RegimeConfig
   \<and> slope_low_threshold quick_RegimeConfig \<le> slope_high_threshold quick_RegimeConfig
   \<and> nan_greater (series_mean (map slope_magnitude steep_window))
        (slope_high_threshold quick_RegimeConfig)
   \<and> detect_regime quick_RegimeConfig steep_window = high_vol
   \<and> detect_regime quick_RegimeConfig calm_window = low_vol
   \<and> detect_regime quick_RegimeConfig middle_window = normal"
  using detect_regime_cases [of short_window default_RegimeConfig]
    detect_regime_cases [of threshold_window default_RegimeConfig]
    detect_regime_cases [of steep_window quick_RegimeConfig]
    detect_regime_cases [of calm_window quick_RegimeConfig]
    detect_regime_cases [of middle_window quick_RegimeConfig]
  by (simp add: series_mean_threshold_window series_mean_steep_window
      series_mean_calm_window series_mean_middle_window quick_RegimeConfig_def
      default_RegimeConfig_thresholds nan_less_def nan_greater_def window_lengths)

subsection \<open>Choosing the best action\<close>

lemma length_ranked_actions: "2 \<le> length (ranked_actions self p5 p10 x bankroll cfg)"
  by (simp add: ranked_actions_def sort_by_ev_desc_def candidate_actions_def Let_def)

lemma set_ranked_actions:
  "set (ranked_actions self p5 p10 x bankroll cfg)
     = set (candidate_actions self p5 p10 x bankroll cfg)"
  by (simp add: ranked_actions_def sort_by_ev_desc_def)

lemma sorted_ranked_actions:
  "sorted_wrt (\<lambda>a b. fst (snd b) \<le> fst (snd a)) (ranked_actions self p5 p10 x bankroll cfg)"
proof -
  have "sorted (map (\<lambda>a. - fst (snd a)) (sort_by_ev_desc xs))" for xs :: "candidate list"
    by (simp add: sort_by_ev_desc_def)
  then have "sorted_wrt (\<lambda>a b. fst (snd b) \<le> fst (snd a)) (sort_by_ev_desc xs)"
    for xs :: "candidate list"
    by (simp add: sorted_map)
  then show ?thesis by (simp add: ranked_actions_def)
qed

lemma two_or_more:
  assumes "2 \<le> length xs"
  shows "\<exists>a b r. xs = a # b # r"
proof (cases xs)
  case Nil
  with assms show ?thesis by simp
next
  case (Cons a ys)
  with assms obtain b r where "ys = b # r" by (cases ys) auto
  with Cons show ?thesis by blast
qed

lemma clamp_confidence_bounds:
  "(5 / 100 :: real) \<le> min (95 / 100) (max (5 / 100) v)
   \<and> min (95 / 100) (max (5 / 100) v) \<le> (95 / 100 :: real)"
  unfolding min_def max_def by auto

lemma best_action_confidence:
  assumes "ranked_actions self p5 p10 x bankroll cfg = (n0, e0, d0) # (n1, e1, d1) # rest"
  shows "\<exists>r. best_action self p5 p10 x bankroll cfg = Inr r \<and> action r = n0 \<and>
     confidence r = min (95 / 100) (max (5 / 100) (1 / 2 + 10 * (e0 - e1)))"
  using assms by (simp add: best_action_def Let_def)

lemma best_action_head:
  assumes "ranked_actions self p5 p10 x bankroll cfg = (n0, e0, d0) # rest"
  shows "\<exists>r. best_action self p5 p10 x bankroll cfg = Inr r \<and> action r = n0"
  using assms by (simp add: best_action_def Let_def split: list.splits prod.splits)

lemma computed_sidebet_ev_zero: "computed_sidebet_ev self p10 0 cfg = 0"
  by (simp add: computed_sidebet_ev_def Let_def ev_sidebet_def)

text \<open>
  The head of the ranked list is the sidebet only when the sidebet was proposed and its
  EV is positive: with an EV of at most 0 it sorts behind CASH, which was inserted
  before it.
\<close>

lemma head_ranked_actions:
  "\<exists>n0 e0 d0 rest. ranked_actions self p5 p10 x bankroll cfg = (n0, e0, d0) # rest \<and>
      (n0 = ARM_SIDEBET \<longrightarrow>
         ev_threshold (cfg_or_self self cfg) < computed_sidebet_ev self p10 bankroll cfg \<and>
         0 < computed_sidebet_ev self p10 bankroll cfg)"
  by (auto simp add: ranked_actions_def candidate_actions_def sort_by_ev_desc_def Let_def)

lemma best_action_sidebet_gate:
  "\<exists>r. best_action self p5 p10 x b cfg = Inr r \<and>
     (action r = ARM_SIDEBET \<longrightarrow>
        ev_threshold (cfg_or_self self cfg) < computed_sidebet_ev self p10 b cfg \<and>
        0 < computed_sidebet_ev self p10 b cfg)
     \<and> action r \<in> {HOLD, CASH, ARM_SIDEBET}"
proof -
  from head_ranked_actions [of self p5 p10 x b cfg] obtain n0 e0 d0 rest where
    h: "ranked_actions self p5 p10 x b cfg = (n0, e0, d0) # rest"
      "n0 = ARM_SIDEBET \<longrightarrow>
         ev_threshold (cfg_or_self self cfg) < computed_sidebet_ev self p10 b cfg \<and>
         0 < computed_sidebet_ev self p10 b cfg" by blast
  have "(n0, e0, d0) \<in> set (candidate_actions self p5 p10 x b cfg)"
    using h(1) set_ranked_actions [of self p5 p10 x b cfg] by auto
  then have "n0 \<in> {HOLD, CASH, ARM_SIDEBET}"
    by (auto simp add: candidate_actions_def Let_def split: if_splits)
  with best_action_head [OF h(1)] h(2) show ?thesis by auto
qed

text \<open>
  Claim C3. \<open>best_action\<close> always returns a result, and the action is ARM\_SIDEBET only
  if the sidebet EV it computed (from the clamped \<open>p10\<close> and the stake
  \<open>bankroll * default_stake_pct\<close>) is strictly above \<open>ev_threshold\<close>. With bankroll 0 the
  stake is 0, the sidebet EV is exactly 0 for every probability, and the returned action
  is HOLD or CASH, never ARM\_SIDEBET.
\<close>

theorem best_action_sidebet_only_above_threshold:
  "(\<exists>r. best_action self p5 p10 x bankroll cfg = Inr r \<and>
     (action r = ARM_SIDEBET \<longrightarrow>
        computed_sidebet_ev self p10 bankroll cfg > ev_threshold (cfg_or_self self cfg)))
   \<and> computed_sidebet_ev self p10 0 cfg = 0
   \<and> ev_sidebet self p 0 cfg = 0
   \<and> (\<exists>r. best_action self p5 p10 x 0 cfg = Inr r \<and> (action r = HOLD \<or> action r = CASH))"
proof -
  from best_action_sidebet_gate [of self p5 p10 x 0 cfg]
  have "\<exists>r. best_action self p5 p10 x 0 cfg = Inr r \<and> (action r = HOLD \<or> action r = CASH)"
    by (auto simp add: computed_sidebet_ev_zero)
  with best_action_sidebet_gate [of self p5 p10 x bankroll cfg] show ?thesis
    by (auto simp add: computed_sidebet_ev_zero ev_sidebet_def Let_def)
qed

theorem best_action_sidebet_only_above_threshold_witness:
  "(\<exists>r. best_action default_EVConfig (8 / 10) (85 / 100) (11 / 10) 1000 None = Inr r
        \<and> action r = ARM_SIDEBET)
   \<and> computed_sidebet_ev default_EVConfig (85 / 100) 1000 None = 1591 / 50
   \<and> computed_sidebet_ev default_EVConfig (85 / 100) 1000 None
       > ev_threshold (cfg_or_self default_EVConfig None)
   \<and> (\<exists>r. best_action default_EVConfig (8 / 10) (85 / 100) (11 / 10) 0 None = Inr r
        \<and> action r = CASH)"
  using best_action_sidebet_only_above_threshold
    [of default_EVConfig "8 / 10" "85 / 100" "11 / 10" 1000 None "85 / 100"]
  by (simp add: best_action_def ranked_actions_def candidate_actions_def sort_by_ev_desc_def
      computed_sidebet_ev_def ev_sidebet_def ev_cash_hold_def ev_cash_now_def cfg_or_self_def
      clamp_probability_def np_clip_def default_EVConfig_def Let_def)

text \<open>
  Claim C8. \<open>best_action\<close> always returns a result; the list it ranked holds the
  candidates in descending order of EV and has a best and a second-best one, and the
  confidence is \<open>clamp(0.5 + 10 * (best EV - second-best EV), 0.05, 0.95)\<close>, so it
  lies in \<open>[0.05, 0.95]\<close>.
\<close>

theorem best_action_confidence_clamped:
  "\<exists>r c0 c1 rest.
     best_action self p5 p10 x bankroll cfg = Inr r \<and>
     ranked_actions self p5 p10 x bankroll cfg = c0 # c1 # rest \<and>
     confidence r
       = min (95 / 100) (max (5 / 100) (1 / 2 + 10 * (fst (snd c0) - fst (snd c1)))) \<and>
     5 / 100 \<le> confidence r \<and> confidence r \<le> 95 / 100 \<and>
     sorted_wrt (\<lambda>a b. fst (snd b) \<le> fst (snd a))
       (ranked_actions self p5 p10 x bankroll cfg) \<and>
     set (ranked_actions self p5 p10 x bankroll cfg)
       = set (candidate_actions self p5 p10 x bankroll cfg)"
proof -
  from two_or_more [OF length_ranked_actions]
  obtain c0 c1 rest where rk: "ranked_actions self p5 p10 x bankroll cfg = c0 # c1 # rest"
    by blast
  obtain n0 e0 d0 where c0: "c0 = (n0, e0, d0)" by (cases c0)
  obtain n1 e1 d1 where c1: "c1 = (n1, e1, d1)" by (cases c1)
  from best_action_confidence [OF rk [unfolded c0 c1]]
  obtain r where r: "best_action self p5 p10 x bankroll cfg = Inr r"
    "confidence r = min (95 / 100) (max (5 / 100) (1 / 2 + 10 * (e0 - e1)))" by blast
  from r(2) clamp_confidence_bounds [of "1 / 2 + 10 * (e0 - e1)"]
  have b: "5 / 100 \<le> confidence r \<and> confidence r \<le> 95 / 100" by (simp only:)
  show ?thesis
  proof (intro exI conjI)
    show "best_action self p5 p10 x bankroll cfg = Inr r" by (rule r(1))
    show "ranked_actions self p5 p10 x bankroll cfg = c0 # c1 # rest" by (rule rk)
    show "confidence r
            = min (95 / 100) (max (5 / 100) (1 / 2 + 10 * (fst (snd c0) - fst (snd c1))))"
      using r(2) by (simp only: c0 c1 fst_conv snd_conv)
    show "5 / 100 \<le> confidence r" using b by (rule conjunct1)
    show "confidence r \<le> 95 / 100" using b by (rule conjunct2)
    show "sorted_wrt (\<lambda>a b. fst (snd b) \<le> fst (snd a))
            (ranked_actions self p5 p10 x bankroll cfg)"
      by (rule sorted_ranked_actions)
    show "set (ranked_actions self p5 p10 x bankroll cfg)
            = set (candidate_actions self p5 p10 x bankroll cfg)"
      by (rule set_ranked_actions)
  qed
qed

end
